theory Spec2Isabelle
  imports Main "HOL-Library.Sublist"
begin

section \<open>Strings\<close>

text \<open>
  The converter \<^verbatim>\<open>md-to-pdf.mjs\<close> works on JavaScript strings. They are modelled as
  \<^typ>\<open>string\<close>, a list of characters, each character read as one code unit below 256.
  The characters that cannot be written inside a string literal get a name.
\<close>

definition dq :: char where
  "dq = CHR 0x22"

definition sq :: char where
  "sq = CHR 0x27"

definition backtick :: char where
  "backtick = CHR 0x60"

definition nl :: char where
  "nl = CHR 0x0A"

section \<open>escapeHtml\<close>

text \<open>
  \<^verbatim>\<open>text.replace(/c/g, "r")\<close> for a pattern that is one literal character and a
  replacement that has no dollar sign: every occurrence of the character is replaced.
\<close>

definition replace_char :: "char \<Rightarrow> string \<Rightarrow> string \<Rightarrow> string" where
  "replace_char c r s = concat (map (\<lambda>x. if x = c then r else [x]) s)"

text \<open>The four passes of \<^verbatim>\<open>escapeHtml\<close>, in the order of the source.\<close>

definition escapeHtml :: "string \<Rightarrow> string" where
  "escapeHtml text =
     replace_char dq ''&quot;''
       (replace_char CHR ''>'' ''&gt;''
         (replace_char CHR ''<'' ''&lt;''
           (replace_char CHR ''&'' ''&amp;'' text)))"


section \<open>Placeholder tokens\<close>

text \<open>
  The template literal \<^verbatim>\<open><!--MERMAID_PLACEHOLDER_${mermaidIndex}-->\<close> prints the
  counter in decimal. The counter is a natural number: it starts at 0 and is only
  incremented.
\<close>

definition digit_char :: "nat \<Rightarrow> char" where
  "digit_char d = ''0123456789'' ! d"

function decimal :: "nat \<Rightarrow> string" where
  "decimal n = (if n < 10 then [digit_char n] else decimal (n div 10) @ [digit_char (n mod 10)])"
  by pat_completeness auto
termination
  by (relation "measure (\<lambda>n. n)") auto

declare decimal.simps [simp del]

definition placeholder :: "nat \<Rightarrow> string" where
  "placeholder i = ''<!--MERMAID_PLACEHOLDER_'' @ decimal i @ ''-->''"

section \<open>Documents and the external libraries\<close>

text \<open>
  The Markdown lexer and renderer (\<^verbatim>\<open>marked\<close>, \<^verbatim>\<open>marked-highlight\<close>) and the
  highlighter (\<^verbatim>\<open>highlight.js\<close>) are libraries outside the repository. A document is
  given as the sequence of blocks the lexer delivers, in source order: a fenced code
  block with its language tag (empty when the fence has none) and its contents, or any
  other block with the HTML the renderer emits for it (a raw HTML block is emitted as
  it stands in the source).
\<close>

datatype block =
    Fence string string
  | Other string

text \<open>
  What the script needs of the libraries: \<^verbatim>\<open>hljs.getLanguage\<close>, the value of
  \<^verbatim>\<open>hljs.highlight\<close> for a registered language, the value of
  \<^verbatim>\<open>hljs.highlightAuto\<close>, and the markup the renderer puts around the text the
  highlight callback returns for a fence of a given language.
\<close>

record libs =
  getLanguage :: "string \<Rightarrow> bool"
  highlightLang :: "string \<Rightarrow> string \<Rightarrow> string"
  highlightAuto :: "string \<Rightarrow> string"
  renderCode :: "string \<Rightarrow> string \<Rightarrow> string"

datatype error =
    UnknownLanguage string
  | RenderEngineLaunchFailure
  | PageFailure
  | LoadFailure
  | DiagramRenderTimeout
  | ExportFailure
  | CloseFailure

text \<open>\<^verbatim>\<open>hljs.highlight(code, { language })\<close> throws for a language that is not registered.\<close>

definition hljs_highlight :: "libs \<Rightarrow> string \<Rightarrow> string \<Rightarrow> error + string" where
  "hljs_highlight L code lang =
     (if getLanguage L lang then Inr (highlightLang L code lang) else Inl (UnknownLanguage lang))"

text \<open>
  The code renderer of \<^verbatim>\<open>marked-highlight\<close> with the option
  \<^verbatim>\<open>langPrefix: "hljs language-"\<close> of the source: the markup that the comment in
  \<^verbatim>\<open>markdownToHtml\<close> refers to.
\<close>

definition mh_code :: "string \<Rightarrow> string \<Rightarrow> string" where
  "mh_code lang text =
     ''<pre><code''
     @ (if lang = [] then [] else '' class='' @ [dq] @ ''hljs language-'' @ lang @ [dq])
     @ ''>'' @ text @ [nl] @ ''</code></pre>''"

section \<open>markdownToHtml: the highlight callback\<close>

record mermaidBlock =
  index :: nat
  code :: string

text \<open>The two local variables of \<^verbatim>\<open>markdownToHtml\<close> that the callback updates.\<close>

record extraction =
  mermaidIndex :: nat
  mermaidBlocks :: "mermaidBlock list"

definition highlight :: "libs \<Rightarrow> string \<Rightarrow> string \<Rightarrow> extraction \<Rightarrow> error + (string \<times> extraction)" where
  "highlight L src lang st =
     (if lang = ''mermaid'' then
        Inr (placeholder (mermaidIndex st),
             st\<lparr>mermaidBlocks := mermaidBlocks st @ [\<lparr>index = mermaidIndex st, code = src\<rparr>],
                mermaidIndex := mermaidIndex st + 1\<rparr>)
      else if lang \<noteq> [] \<and> getLanguage L lang then
        (case hljs_highlight L src lang of
           Inl e \<Rightarrow> Inl e
         | Inr v \<Rightarrow> Inr (v, st))
      else Inr (highlightAuto L src, st))"

text \<open>
  \<^verbatim>\<open>marked.parse\<close>: the callback runs on every fence in source order, the renderer
  wraps what it returns, and the pieces are concatenated. An exception of the callback
  ends the parse.
\<close>

fun marked_parse :: "libs \<Rightarrow> block list \<Rightarrow> extraction \<Rightarrow> error + (string \<times> extraction)" where
  "marked_parse L [] st = Inr ([], st)"
| "marked_parse L (Other h # bs) st =
     (case marked_parse L bs st of
        Inl e \<Rightarrow> Inl e
      | Inr (r, st') \<Rightarrow> Inr (h @ r, st'))"
| "marked_parse L (Fence lang src # bs) st =
     (case highlight L src lang st of
        Inl e \<Rightarrow> Inl e
      | Inr (v, st1) \<Rightarrow>
          (case marked_parse L bs st1 of
             Inl e \<Rightarrow> Inl e
           | Inr (r, st2) \<Rightarrow> Inr (renderCode L lang v @ r, st2)))"

section \<open>markdownToHtml: reinjection\<close>

text \<open>
  \<^verbatim>\<open>\s\<close> on code units below 256: tab, line feed, vertical tab, form feed, carriage
  return, space and no-break space.
\<close>

definition isspace :: "char \<Rightarrow> bool" where
  "isspace c = (c \<in> set [CHR 0x09, CHR 0x0A, CHR 0x0B, CHR 0x0C, CHR 0x0D, CHR 0x20, CHR 0xA0])"

fun strip_prefix :: "string \<Rightarrow> string \<Rightarrow> string option" where
  "strip_prefix [] s = Some s"
| "strip_prefix (p # ps) [] = None"
| "strip_prefix (p # ps) (c # cs) = (if p = c then strip_prefix ps cs else None)"

text \<open>
  One attempt of \<^verbatim>\<open><pre><code[^>]*>\s*TOKEN\s*</code></pre>\<close> at the start of a
  string; the result is the text after the match. The escaped token matches itself
  literally. Greedy \<^verbatim>\<open>[^>]*\<close> stops at the first \<^verbatim>\<open>>\<close>, and a run of
  \<^verbatim>\<open>\s*\<close> is followed by a literal that starts with \<^verbatim>\<open><\<close>, so backtracking
  cannot find a match that the longest runs miss.
\<close>

definition match_wrapped :: "string \<Rightarrow> string \<Rightarrow> string option" where
  "match_wrapped tok s =
     (case strip_prefix ''<pre><code'' s of
        None \<Rightarrow> None
      | Some s1 \<Rightarrow>
          (case dropWhile (\<lambda>c. c \<noteq> CHR ''>'') s1 of
             [] \<Rightarrow> None
           | _ # s2 \<Rightarrow>
               (case strip_prefix tok (dropWhile isspace s2) of
                  None \<Rightarrow> None
                | Some s3 \<Rightarrow> strip_prefix ''</code></pre>'' (dropWhile isspace s3))))"

text \<open>
  The replacement argument of \<^verbatim>\<open>String.prototype.replace\<close> is a template:
  \<^verbatim>\<open>$$\<close> stands for a dollar sign, \<^verbatim>\<open>$&\<close> for the matched text, \<^verbatim>\<open>$`\<close> for
  the text before the match and \<^verbatim>\<open>$'\<close> for the text after it. The pattern has no
  capture group, so a dollar sign before anything else stands for itself.
\<close>

fun expand :: "string \<Rightarrow> string \<Rightarrow> string \<Rightarrow> string \<Rightarrow> string" where
  "expand [] m pre post = []"
| "expand [c] m pre post = [c]"
| "expand (c # d # r) m pre post =
     (if c = CHR ''$'' \<and> d = CHR ''$'' then CHR ''$'' # expand r m pre post
      else if c = CHR ''$'' \<and> d = CHR ''&'' then m @ expand r m pre post
      else if c = CHR ''$'' \<and> d = backtick then pre @ expand r m pre post
      else if c = CHR ''$'' \<and> d = sq then post @ expand r m pre post
      else c # expand (d # r) m pre post)"

lemma strip_prefix_length:
  "strip_prefix p s = Some r \<Longrightarrow> length s = length p + length r"
  by (induction p s rule: strip_prefix.induct) (auto split: if_splits)

lemma match_wrapped_shorter:
  assumes "match_wrapped tok s = Some r"
  shows "length r < length s"
proof -
  from assms obtain s1 where s1: "strip_prefix ''<pre><code'' s = Some s1"
    by (auto simp: match_wrapped_def split: option.splits)
  from assms s1 obtain x s2 where s2: "dropWhile (\<lambda>c. c \<noteq> CHR ''>'') s1 = x # s2"
    by (auto simp: match_wrapped_def split: option.splits list.splits)
  from assms s1 s2 obtain s3 where s3: "strip_prefix tok (dropWhile isspace s2) = Some s3"
    and r: "strip_prefix ''</code></pre>'' (dropWhile isspace s3) = Some r"
    by (auto simp: match_wrapped_def split: option.splits)
  have "length r \<le> length s3"
    using strip_prefix_length [OF r] length_dropWhile_le [of isspace s3] by simp
  also have "length s3 \<le> length s2"
    using strip_prefix_length [OF s3] length_dropWhile_le [of isspace s2] by simp
  also have "length s2 < length s1"
    using s2 length_dropWhile_le [of "\<lambda>c. c \<noteq> CHR ''>''" s1] by simp
  also have "length s1 \<le> length s"
    using strip_prefix_length [OF s1] by simp
  finally show ?thesis .
qed

text \<open>
  \<^verbatim>\<open>html.replace(wrappedPattern, mermaidDiv)\<close> with the flag \<^verbatim>\<open>g\<close>: the string is
  scanned from the left; at a match the expanded replacement is emitted and the scan
  goes on behind the match, otherwise one character is copied. The third argument is
  the text already scanned, which \<^verbatim>\<open>$`\<close> refers to.
\<close>

function replace_all :: "string \<Rightarrow> string \<Rightarrow> string \<Rightarrow> string \<Rightarrow> string" where
  "replace_all tok repl pre [] = []"
| "replace_all tok repl pre (c # cs) =
     (case match_wrapped tok (c # cs) of
        Some rest \<Rightarrow>
          (let m = take (length (c # cs) - length rest) (c # cs)
           in expand repl m pre rest @ replace_all tok repl (pre @ m) rest)
      | None \<Rightarrow> c # replace_all tok repl (pre @ [c]) cs)"
  by pat_completeness auto
termination
  by (relation "measure (\<lambda>(tok, repl, pre, s). length s)")
     (auto dest: match_wrapped_shorter)

definition mermaidDiv :: "string \<Rightarrow> string" where
  "mermaidDiv src =
     ''<div class='' @ [dq] @ ''mermaid-container'' @ [dq] @ ''><div class='' @ [dq] @ ''mermaid''
     @ [dq] @ ''>'' @ escapeHtml src @ ''</div></div>''"

text \<open>The loop over \<^verbatim>\<open>mermaidBlocks\<close>.\<close>

fun reinject :: "mermaidBlock list \<Rightarrow> string \<Rightarrow> string" where
  "reinject [] html = html"
| "reinject (b # bs) html =
     reinject bs (replace_all (placeholder (index b)) (mermaidDiv (code b)) [] html)"

record conversion =
  html :: string
  hasMermaid :: bool

definition markdownToHtml :: "libs \<Rightarrow> block list \<Rightarrow> error + conversion" where
  "markdownToHtml L markdownContent =
     (case marked_parse L markdownContent \<lparr>mermaidIndex = 0, mermaidBlocks = []\<rparr> of
        Inl e \<Rightarrow> Inl e
      | Inr (h, st) \<Rightarrow>
          Inr \<lparr>html = reinject (mermaidBlocks st) h,
               hasMermaid = (length (mermaidBlocks st) > 0)\<rparr>)"

section \<open>buildHtmlDocument\<close>

text \<open>The value of \<^verbatim>\<open>mermaidScript\<close> when \<^verbatim>\<open>hasMermaid\<close> holds: three line breaks inside.\<close>

definition bootstrap :: string where
  "bootstrap =
     ''<script src='' @ [dq] @ ''https://cdn.jsdelivr.net/npm/mermaid@11/dist/mermaid.min.js'' @ [dq]
     @ ''></script>'' @ [nl]
     @ ''       <script>'' @ [nl]
     @ ''         mermaid.initialize({ startOnLoad: true, theme: '' @ [sq] @ ''default'' @ [sq]
     @ '' });'' @ [nl]
     @ ''       </script>''"

definition mermaidScript :: "bool \<Rightarrow> string" where
  "mermaidScript hasMermaid' = (if hasMermaid' then bootstrap else [])"

text \<open>The template literal, cut at its three interpolations.\<close>

definition shell_head :: string where
  "shell_head =
     ''<!DOCTYPE html>'' @ [nl]
     @ ''<html lang='' @ [dq] @ ''en'' @ [dq] @ ''>'' @ [nl]
     @ ''<head>'' @ [nl]
     @ ''  <meta charset='' @ [dq] @ ''UTF-8'' @ [dq] @ ''>'' @ [nl]
     @ ''  <meta name='' @ [dq] @ ''viewport'' @ [dq] @ '' content='' @ [dq]
     @ ''width=device-width, initial-scale=1.0'' @ [dq] @ ''>'' @ [nl]
     @ ''  <style>''"

definition shell_style_end :: string where
  "shell_style_end = ''</style>'' @ [nl] @ ''  ''"

definition shell_body :: string where
  "shell_body = [nl] @ ''</head>'' @ [nl] @ ''<body>'' @ [nl] @ ''  <article>''"

definition shell_end :: string where
  "shell_end = ''</article>'' @ [nl] @ ''</body>'' @ [nl] @ ''</html>''"

definition buildHtmlDocument :: "string \<Rightarrow> string \<Rightarrow> bool \<Rightarrow> string" where
  "buildHtmlDocument bodyHtml cssContent hasMermaid' =
     shell_head @ cssContent @ shell_style_end @ mermaidScript hasMermaid'
     @ shell_body @ bodyHtml @ shell_end"

section \<open>generatePdf\<close>

text \<open>The options object of the call \<^verbatim>\<open>page.pdf\<close>.\<close>

record pdfMargin =
  margin_top :: string
  margin_right :: string
  margin_bottom :: string
  margin_left :: string

record pdfOptions =
  path :: string
  format :: string
  margin :: pdfMargin
  printBackground :: bool
  preferCSSPageSize :: bool

definition pdf_options :: "string \<Rightarrow> pdfOptions" where
  "pdf_options outputPath =
     \<lparr>path = outputPath,
      format = ''A4'',
      margin = \<lparr>margin_top = ''20mm'', margin_right = ''15mm'',
                margin_bottom = ''20mm'', margin_left = ''15mm''\<rparr>,
      printBackground = True,
      preferCSSPageSize = False\<rparr>"

text \<open>
  The headless browser is outside the repository. What one run of it does is given by
  the outcome of each awaited call: whether \<^verbatim>\<open>puppeteer.launch\<close>,
  \<^verbatim>\<open>browser.newPage\<close>, \<^verbatim>\<open>page.setContent\<close>, \<^verbatim>\<open>page.waitForFunction\<close> (it
  rejects when the predicate has not become true within the timeout),
  \<^verbatim>\<open>page.pdf\<close> and \<^verbatim>\<open>browser.close\<close> resolve.
\<close>

record surface =
  launches :: bool
  opensPage :: bool
  loads :: bool
  diagramsReady :: bool
  exports :: bool
  closes :: bool

text \<open>The calls \<^verbatim>\<open>generatePdf\<close> makes, with the arguments that matter.\<close>

datatype event =
    Launch
  | NewPage
  | SetContent string
  | WaitForFunction nat
  | SetTimeout nat
  | Pdf pdfOptions
  | Close

text \<open>
  \<^verbatim>\<open>generatePdf\<close> returns the calls made, in order, and either the output path or
  the error of the first call that rejects: the function has no \<^verbatim>\<open>try\<close>, so a
  rejected \<^verbatim>\<open>await\<close> ends it there.
\<close>

definition generatePdf :: "surface \<Rightarrow> string \<Rightarrow> string \<Rightarrow> bool \<Rightarrow> event list \<times> (error + string)" where
  "generatePdf S htmlContent outputPath hasMermaid' =
     (if \<not> launches S then ([Launch], Inl RenderEngineLaunchFailure)
      else if \<not> opensPage S then ([Launch, NewPage], Inl PageFailure)
      else if \<not> loads S then ([Launch, NewPage, SetContent htmlContent], Inl LoadFailure)
      else if hasMermaid' \<and> \<not> diagramsReady S then
        ([Launch, NewPage, SetContent htmlContent, WaitForFunction 30000],
         Inl DiagramRenderTimeout)
      else
        (let loaded = [Launch, NewPage, SetContent htmlContent]
               @ (if hasMermaid' then [WaitForFunction 30000, SetTimeout 500] else [])
         in if \<not> exports S then (loaded @ [Pdf (pdf_options outputPath)], Inl ExportFailure)
            else if \<not> closes S then
              (loaded @ [Pdf (pdf_options outputPath), Close], Inl CloseFailure)
            else (loaded @ [Pdf (pdf_options outputPath), Close], Inr outputPath)))"

section \<open>The conversion\<close>

text \<open>
  The part of \<^verbatim>\<open>main\<close> behind the file reads: parse, assemble, export. An exception
  of the parse ends the conversion before the browser is launched.
\<close>

definition convert :: "libs \<Rightarrow> surface \<Rightarrow> block list \<Rightarrow> string \<Rightarrow> string \<Rightarrow> event list \<times> (error + string)" where
  "convert L S markdownContent cssContent outputPath =
     (case markdownToHtml L markdownContent of
        Inl e \<Rightarrow> ([], Inl e)
      | Inr r \<Rightarrow>
          generatePdf S (buildHtmlDocument (html r) cssContent (hasMermaid r)) outputPath
            (hasMermaid r))"

section \<open>Vocabulary of the properties\<close>

text \<open>
  What \<^const>\<open>highlight\<close> returns for a fence that is not a diagram: the two highlighter
  branches of the callback.
\<close>

definition highlighted :: "libs \<Rightarrow> string \<Rightarrow> string \<Rightarrow> string" where
  "highlighted L src lang =
     (if lang \<noteq> [] \<and> getLanguage L lang then highlightLang L src lang else highlightAuto L src)"

text \<open>The contents of the mermaid fences of a document, in source order.\<close>

fun mermaid_sources :: "block list \<Rightarrow> string list" where
  "mermaid_sources [] = []"
| "mermaid_sources (Other h # bs) = mermaid_sources bs"
| "mermaid_sources (Fence lang src # bs) =
     (if lang = ''mermaid'' then src # mermaid_sources bs else mermaid_sources bs)"

text \<open>
  The HTML of everything that is not a mermaid fence: the text before the first mermaid
  fence, the text between each two, and the text behind the last. A document with \<open>N\<close>
  mermaid fences has \<open>N + 1\<close> such stretches.
\<close>

fun rest_html :: "libs \<Rightarrow> block list \<Rightarrow> string list" where
  "rest_html L [] = [[]]"
| "rest_html L (Other h # bs) = (h @ hd (rest_html L bs)) # tl (rest_html L bs)"
| "rest_html L (Fence lang src # bs) =
     (if lang = ''mermaid'' then [] # rest_html L bs
      else (renderCode L lang (highlighted L src lang) @ hd (rest_html L bs)) # tl (rest_html L bs))"

text \<open>Stretches and the pieces that stand between them, alternating.\<close>

fun interleave :: "string list \<Rightarrow> string list \<Rightarrow> string" where
  "interleave [] xs = concat xs"
| "interleave (s # ss) [] = s @ concat ss"
| "interleave (s # ss) (x # xs) = s @ x @ interleave ss xs"

text \<open>The blocks with the indices \<open>i, i + 1, \<dots>\<close> for a list of diagram sources.\<close>

definition numbered :: "nat \<Rightarrow> string list \<Rightarrow> mermaidBlock list" where
  "numbered i srcs = map2 (\<lambda>k s. \<lparr>index = k, code = s\<rparr>) [i ..< i + length srcs] srcs"

text \<open>
  Libraries for the concrete examples: a highlighter that knows one language and only
  escapes its input, with the renderer of \<^verbatim>\<open>marked-highlight\<close>.
\<close>

definition demo_libs :: libs where
  "demo_libs = \<lparr>getLanguage = (\<lambda>lang. lang = ''javascript''),
                highlightLang = (\<lambda>src lang. escapeHtml src),
                highlightAuto = escapeHtml,
                renderCode = mh_code\<rparr>"

text \<open>Two runs of the browser: every call resolves; the diagrams never finish.\<close>

definition ok_surface :: surface where
  "ok_surface = \<lparr>launches = True, opensPage = True, loads = True, diagramsReady = True,
                 exports = True, closes = True\<rparr>"


text \<open>The calls of the diagram wait: the poll and the delay behind it.\<close>

definition is_wait :: "event \<Rightarrow> bool" where
  "is_wait e = (case e of WaitForFunction t \<Rightarrow> True | SetTimeout d \<Rightarrow> True | _ \<Rightarrow> False)"

text \<open>The options of the export calls in a trace.\<close>

definition pdf_calls :: "event list \<Rightarrow> pdfOptions list" where
  "pdf_calls es = concat (map (\<lambda>e. case e of Pdf opts \<Rightarrow> [opts] | _ \<Rightarrow> []) es)"



text \<open>The pattern of a token matches at no position of a string.\<close>

definition no_match :: "string \<Rightarrow> string \<Rightarrow> bool" where
  "no_match tok s = (\<forall>a\<in>set (suffixes s). match_wrapped tok a = None)"

text \<open>
  A document for the concrete examples: a paragraph, a mermaid fence and a fence without
  a language tag.
\<close>

definition diagram_doc :: "block list" where
  "diagram_doc =
     [Other ''<p>intro</p>'', Fence ''mermaid'' ''graph TD; A-->B'', Fence [] ''x < y'']"

text \<open>
  Libraries whose renderer puts the class on the \<^verbatim>\<open>pre\<close> element: markup that the
  pattern of the reinjection does not match.
\<close>

definition bare_libs :: libs where
  "bare_libs =
     demo_libs\<lparr>renderCode := (\<lambda>lang text. ''<pre class=diagram><code>'' @ text @ ''</code></pre>'')\<rparr>"




section \<open>The parse\<close>

lemma rest_html_length: "length (rest_html L doc) = Suc (length (mermaid_sources doc))"
  by (induction L doc rule: rest_html.induct) auto

lemma rest_html_ne: "rest_html L doc \<noteq> []"
  using rest_html_length [of L doc] by auto

lemma interleave_hd:
  "S \<noteq> [] \<Longrightarrow> interleave ((h @ hd S) # tl S) xs = h @ interleave S xs"
  by (cases S; cases xs) auto

lemma numbered_Nil [simp]: "numbered i [] = []"
  by (simp add: numbered_def)

lemma upt_head: "[i ..< Suc (i + n)] = i # [Suc i ..< Suc (i + n)]"
  by (simp add: upt_conv_Cons del: upt_Suc)

lemma numbered_Cons: "numbered i (s # srcs) = \<lparr>index = i, code = s\<rparr> # numbered (Suc i) srcs"
  by (simp add: numbered_def upt_head del: upt_Suc)

lemma numbered_eq_Nil [simp]: "(numbered i srcs = []) = (srcs = [])"
  by (cases srcs) (simp_all add: numbered_Cons)

lemma highlight_mermaid:
  "highlight L src ''mermaid'' st =
     Inr (placeholder (mermaidIndex st),
          st\<lparr>mermaidBlocks := mermaidBlocks st @ [\<lparr>index = mermaidIndex st, code = src\<rparr>],
             mermaidIndex := Suc (mermaidIndex st)\<rparr>)"
  by (simp add: highlight_def)

lemma highlight_other:
  "lang \<noteq> ''mermaid'' \<Longrightarrow> highlight L src lang st = Inr (highlighted L src lang, st)"
  by (simp add: highlight_def highlighted_def hljs_highlight_def)

text \<open>
  The parse never fails. Its HTML is the rest of the document with the rendered
  placeholders in the places of the mermaid fences; its blocks are the sources of the
  fences, numbered from the counter on.
\<close>

lemma marked_parse_layout:
  "marked_parse L doc st =
     Inr (interleave (rest_html L doc)
            (map (\<lambda>i. renderCode L ''mermaid'' (placeholder i))
               [mermaidIndex st ..< mermaidIndex st + length (mermaid_sources doc)]),
          st\<lparr>mermaidBlocks := mermaidBlocks st @ numbered (mermaidIndex st) (mermaid_sources doc),
             mermaidIndex := mermaidIndex st + length (mermaid_sources doc)\<rparr>)"
proof (induction doc arbitrary: st)
  case Nil
  show ?case by simp
next
  case (Cons b bs)
  show ?case
  proof (cases b)
    case (Other h)
    show ?thesis
      by (simp add: Other Cons.IH interleave_hd rest_html_ne)
  next
    case (Fence lang src)
    show ?thesis
    proof (cases "lang = ''mermaid''")
      case True
      show ?thesis
        by (simp add: Fence True highlight_mermaid Cons.IH numbered_Cons upt_head del: upt_Suc)
    next
      case False
      show ?thesis
        by (simp add: Fence False highlight_other Cons.IH interleave_hd rest_html_ne)
    qed
  qed
qed

lemma markdownToHtml_layout:
  "markdownToHtml L doc =
     Inr \<lparr>html = reinject (numbered 0 (mermaid_sources doc))
                    (interleave (rest_html L doc)
                       (map (\<lambda>i. renderCode L ''mermaid'' (placeholder i))
                          [0 ..< length (mermaid_sources doc)])),
          hasMermaid = (mermaid_sources doc \<noteq> [])\<rparr>"
  by (simp add: markdownToHtml_def marked_parse_layout)

text \<open>
  C9. A fence whose language tag is absent or is not registered with the highlighter
  (and is not the diagram tag, which the callback handles before it looks at the
  highlighter) goes to \<^verbatim>\<open>hljs.highlightAuto\<close>: the callback returns its value and
  raises nothing, the parse renders the fence with it, and the conversion of any
  document gets through the parse without an error.
\<close>

theorem unknown_language_falls_back:
  "(lang \<noteq> ''mermaid'' \<and> (lang = [] \<or> \<not> getLanguage L lang) \<longrightarrow>
      highlight L src lang st = Inr (highlightAuto L src, st)
      \<and> (\<exists>r st'. marked_parse L bs st = Inr (r, st')
            \<and> marked_parse L (Fence lang src # bs) st
                = Inr (renderCode L lang (highlightAuto L src) @ r, st')))
   \<and> (\<exists>r. markdownToHtml L doc = Inr r)"
proof (intro conjI impI)
  assume a: "lang \<noteq> ''mermaid'' \<and> (lang = [] \<or> \<not> getLanguage L lang)"
  then show h: "highlight L src lang st = Inr (highlightAuto L src, st)"
    by (auto simp: highlight_def)
  obtain r st' where p: "marked_parse L bs st = Inr (r, st')"
    using marked_parse_layout [of L bs st] by blast
  show "\<exists>r st'. marked_parse L bs st = Inr (r, st')
            \<and> marked_parse L (Fence lang src # bs) st
                = Inr (renderCode L lang (highlightAuto L src) @ r, st')"
    using p h by simp
next
  show "\<exists>r. markdownToHtml L doc = Inr r"
    by (simp add: markdownToHtml_layout)
qed

theorem unknown_language_falls_back_witness:
  "highlight demo_libs ''x < y'' ''nolang'' \<lparr>mermaidIndex = 0, mermaidBlocks = []\<rparr>
     = Inr (''x &lt; y'', \<lparr>mermaidIndex = 0, mermaidBlocks = []\<rparr>)
   \<and> highlight demo_libs ''x < y'' [] \<lparr>mermaidIndex = 0, mermaidBlocks = []\<rparr>
     = Inr (''x &lt; y'', \<lparr>mermaidIndex = 0, mermaidBlocks = []\<rparr>)"
proof -
  have g: "\<not> getLanguage demo_libs ''nolang''"
    by (simp add: demo_libs_def)
  have e: "highlightAuto demo_libs ''x < y'' = ''x &lt; y''"
    by (simp add: demo_libs_def escapeHtml_def replace_char_def dq_def)
  have "highlight demo_libs ''x < y'' ''nolang'' \<lparr>mermaidIndex = 0, mermaidBlocks = []\<rparr>
          = Inr (highlightAuto demo_libs ''x < y'', \<lparr>mermaidIndex = 0, mermaidBlocks = []\<rparr>)"
    using unknown_language_falls_back [of "''nolang''" demo_libs "''x < y''"
        "\<lparr>mermaidIndex = 0, mermaidBlocks = []\<rparr>" "[]" "[]"] g
    by simp
  moreover have "highlight demo_libs ''x < y'' [] \<lparr>mermaidIndex = 0, mermaidBlocks = []\<rparr>
          = Inr (highlightAuto demo_libs ''x < y'', \<lparr>mermaidIndex = 0, mermaidBlocks = []\<rparr>)"
    using unknown_language_falls_back [of "[]" demo_libs "''x < y''"
        "\<lparr>mermaidIndex = 0, mermaidBlocks = []\<rparr>" "[]" "[]"]
    by simp
  ultimately show ?thesis by (simp add: e)
qed

section \<open>Escaping\<close>

lemma replace_char_Nil [simp]: "replace_char c r [] = []"
  by (simp add: replace_char_def)



lemma escapeHtml_Nil [simp]: "escapeHtml [] = []"
  by (simp add: escapeHtml_def)





section \<open>The render engine\<close>




text \<open>
  C7. Without diagrams no call of the diagram wait is made, whatever the browser does,
  and once the document is loaded the next call is the export; a document without a
  mermaid fence is converted that way. With diagrams, once the poll has resolved, one
  delay of 500 ms follows and then the export; the trace has no other delay.
\<close>

theorem diagram_wait_only_with_diagrams:
  "(\<not> m \<longrightarrow> filter is_wait (fst (generatePdf S h out m)) = []
       \<and> (launches S \<and> opensPage S \<and> loads S \<longrightarrow>
            take 4 (fst (generatePdf S h out m))
              = [Launch, NewPage, SetContent h, Pdf (pdf_options out)]))
   \<and> (mermaid_sources doc = [] \<longrightarrow> filter is_wait (fst (convert L S doc css out)) = [])
   \<and> (m \<and> launches S \<and> opensPage S \<and> loads S \<and> diagramsReady S \<longrightarrow>
        take 6 (fst (generatePdf S h out m))
          = [Launch, NewPage, SetContent h, WaitForFunction 30000, SetTimeout 500,
             Pdf (pdf_options out)]
        \<and> filter is_wait (fst (generatePdf S h out m)) = [WaitForFunction 30000, SetTimeout 500])"
  by (simp add: convert_def markdownToHtml_layout generatePdf_def Let_def is_wait_def)

theorem diagram_wait_only_with_diagrams_witness:
  "filter is_wait (fst (generatePdf ok_surface ''<html></html>'' ''out.pdf'' False)) = []
   \<and> take 4 (fst (generatePdf ok_surface ''<html></html>'' ''out.pdf'' False))
       = [Launch, NewPage, SetContent ''<html></html>'', Pdf (pdf_options ''out.pdf'')]
   \<and> filter is_wait (fst (convert demo_libs ok_surface [Other ''<p>intro</p>''] [] ''out.pdf'')) = []
   \<and> take 6 (fst (generatePdf ok_surface ''<html></html>'' ''out.pdf'' True))
       = [Launch, NewPage, SetContent ''<html></html>'', WaitForFunction 30000, SetTimeout 500,
          Pdf (pdf_options ''out.pdf'')]
   \<and> filter is_wait (fst (generatePdf ok_surface ''<html></html>'' ''out.pdf'' True))
       = [WaitForFunction 30000, SetTimeout 500]"
proof -
  have s: "launches ok_surface \<and> opensPage ok_surface \<and> loads ok_surface
             \<and> diagramsReady ok_surface"
    by (simp add: ok_surface_def)
  have d: "mermaid_sources [Other ''<p>intro</p>''] = []"
    by simp
  show ?thesis
    using diagram_wait_only_with_diagrams
            [of False ok_surface "''<html></html>''" "''out.pdf''" "[Other ''<p>intro</p>'']"
               demo_libs "[]"]
          diagram_wait_only_with_diagrams
            [of True ok_surface "''<html></html>''" "''out.pdf''" "[Other ''<p>intro</p>'']"
               demo_libs "[]"] s d
    by simp
qed

text \<open>
  C8. Every export call of \<^verbatim>\<open>generatePdf\<close> carries the same options: format A4, the
  margins 20mm, 15mm, 20mm, 15mm (top, right, bottom, left), backgrounds printed, and
  the page size of the stylesheet not preferred. Of the arguments of the caller only the
  output path reaches the options; the export is called once when the document has
  loaded and the diagrams, if any, are ready, and not at all otherwise.
\<close>

theorem export_format_fixed:
  "pdf_calls (fst (generatePdf S h out m)) =
     (if launches S \<and> opensPage S \<and> loads S \<and> (if m then diagramsReady S else True)
      then [\<lparr>path = out, format = ''A4'',
              margin = \<lparr>margin_top = ''20mm'', margin_right = ''15mm'',
                        margin_bottom = ''20mm'', margin_left = ''15mm''\<rparr>,
              printBackground = True, preferCSSPageSize = False\<rparr>]
      else [])"
  by (simp add: generatePdf_def Let_def pdf_calls_def pdf_options_def)

theorem export_format_fixed_witness:
  "pdf_calls (fst (generatePdf ok_surface ''<html></html>'' ''out.pdf'' True)) =
     [\<lparr>path = ''out.pdf'', format = ''A4'',
       margin = \<lparr>margin_top = ''20mm'', margin_right = ''15mm'',
                 margin_bottom = ''20mm'', margin_left = ''15mm''\<rparr>,
       printBackground = True, preferCSSPageSize = False\<rparr>]"
  using export_format_fixed [of ok_surface "''<html></html>''" "''out.pdf''" True]
  by (simp add: ok_surface_def)

section \<open>Tokens\<close>



lemma decimal_ne [simp]: "decimal n \<noteq> []"
  by (subst decimal.simps) simp

lemma digit_char_inj: "a < 10 \<Longrightarrow> b < 10 \<Longrightarrow> digit_char a = digit_char b \<Longrightarrow> a = b"
  unfolding digit_char_def
  by (subst (asm) nth_eq_iff_index_eq) simp_all

text \<open>Two numbers with the same decimal digits are equal.\<close>

lemma decimal_inj: "decimal m = decimal n \<Longrightarrow> m = n"
proof (induction m arbitrary: n rule: decimal.induct)
  case (1 m)
  show ?case
  proof (cases "m < 10")
    case m: True
    show ?thesis
    proof (cases "n < 10")
      case True
      with m "1.prems" show ?thesis
        by (simp add: decimal.simps [of m] decimal.simps [of n] digit_char_inj)
    next
      case False
      with m "1.prems" show ?thesis
        using decimal_ne [of "n div 10"]
        by (simp add: decimal.simps [of m] decimal.simps [of n])
    qed
  next
    case m: False
    show ?thesis
    proof (cases "n < 10")
      case True
      with m "1.prems" show ?thesis
        using decimal_ne [of "m div 10"]
        by (simp add: decimal.simps [of m] decimal.simps [of n])
    next
      case False
      with m "1.prems" have d: "decimal (m div 10) = decimal (n div 10)"
        and r: "digit_char (m mod 10) = digit_char (n mod 10)"
        by (simp_all add: decimal.simps [of m] decimal.simps [of n])
      from d have "m div 10 = n div 10" using m by (rule "1.IH" [rotated])
      moreover from r have "m mod 10 = n mod 10" by (rule digit_char_inj [rotated 2]) simp_all
      ultimately show ?thesis by (metis div_mult_mod_eq)
    qed
  qed
qed

lemma placeholder_inj: "placeholder i = placeholder j \<Longrightarrow> i = j"
  by (simp add: placeholder_def decimal_inj)

lemma inj_placeholder: "inj placeholder"
  by (rule injI) (rule placeholder_inj)


lemma map_index_numbered: "map index (numbered i srcs) = [i ..< i + length srcs]"
  by (induction srcs arbitrary: i) (simp_all add: numbered_Cons upt_head del: upt_Suc)


text \<open>
  C2, as the code has it. The tokens are a function of the block index alone, and the
  function is injective. In one conversion the parse puts the token of each block into
  the HTML, the tokens of the blocks are those of the indices \<open>0, \<dots>, N - 1\<close> in order,
  they are pairwise distinct, and blocks and tokens correspond one to one. Nothing is
  said about the rest of the document: the token format is fixed text.
\<close>

theorem placeholders_deterministic_bijective:
  "inj placeholder
   \<and> (\<exists>h st. marked_parse L doc \<lparr>mermaidIndex = 0, mermaidBlocks = []\<rparr> = Inr (h, st)
        \<and> h = interleave (rest_html L doc)
                 (map (\<lambda>b. renderCode L ''mermaid'' (placeholder (index b))) (mermaidBlocks st))
        \<and> map (\<lambda>b. placeholder (index b)) (mermaidBlocks st)
            = map placeholder [0 ..< length (mermaid_sources doc)]
        \<and> distinct (map (\<lambda>b. placeholder (index b)) (mermaidBlocks st))
        \<and> bij_betw (\<lambda>b. placeholder (index b)) (set (mermaidBlocks st))
             (placeholder ` {..< length (mermaid_sources doc)}))"
proof (intro conjI exI)
  let ?bs = "numbered 0 (mermaid_sources doc)"
  let ?st = "\<lparr>mermaidIndex = length (mermaid_sources doc), mermaidBlocks = ?bs\<rparr>"
  let ?h = "interleave (rest_html L doc)
              (map (\<lambda>i. renderCode L ''mermaid'' (placeholder i)) [0 ..< length (mermaid_sources doc)])"
  have toks: "map (\<lambda>b. placeholder (index b)) ?bs = map placeholder [0 ..< length (mermaid_sources doc)]"
    using map_index_numbered [of 0 "mermaid_sources doc"]
    by (metis (no_types, lifting) add_0 map_map o_def map_eq_conv)
  have dist: "distinct (map (\<lambda>b. placeholder (index b)) ?bs)"
    unfolding toks by (simp add: distinct_map inj_placeholder inj_on_subset [OF inj_placeholder])
  show "inj placeholder" by (rule inj_placeholder)
  show "marked_parse L doc \<lparr>mermaidIndex = 0, mermaidBlocks = []\<rparr> = Inr (?h, ?st)"
    by (simp add: marked_parse_layout)
  show "?h = interleave (rest_html L doc)
                 (map (\<lambda>b. renderCode L ''mermaid'' (placeholder (index b))) (mermaidBlocks ?st))"
    using map_index_numbered [of 0 "mermaid_sources doc"]
    by simp (metis (no_types, lifting) map_map o_def map_eq_conv)
  show "map (\<lambda>b. placeholder (index b)) (mermaidBlocks ?st)
            = map placeholder [0 ..< length (mermaid_sources doc)]"
    using toks by simp
  show "distinct (map (\<lambda>b. placeholder (index b)) (mermaidBlocks ?st))"
    using dist by simp
  have "(\<lambda>b. placeholder (index b)) ` set ?bs = placeholder ` {..< length (mermaid_sources doc)}"
    using arg_cong [OF toks, of set] by (simp add: atLeast0LessThan)
  moreover have "inj_on (\<lambda>b. placeholder (index b)) (set ?bs)"
    using dist by (simp add: distinct_map)
  ultimately show "bij_betw (\<lambda>b. placeholder (index b)) (set (mermaidBlocks ?st))
             (placeholder ` {..< length (mermaid_sources doc)})"
    by (simp add: bij_betw_def)
qed

theorem placeholders_deterministic_bijective_witness:
  "\<exists>h st. marked_parse demo_libs diagram_doc \<lparr>mermaidIndex = 0, mermaidBlocks = []\<rparr> = Inr (h, st)
      \<and> map (\<lambda>b. placeholder (index b)) (mermaidBlocks st) = [''<!--MERMAID_PLACEHOLDER_0-->'']"
proof -
  have srcs: "mermaid_sources diagram_doc = [''graph TD; A-->B'']"
    by code_simp
  have p0: "placeholder 0 = ''<!--MERMAID_PLACEHOLDER_0-->''"
    by code_simp
  show ?thesis
    using placeholders_deterministic_bijective [of demo_libs diagram_doc]
    by (auto simp: srcs p0)
qed

text \<open>
  C2 as the specification states it fails: the tokens are not free of collisions with
  the document. A raw HTML block whose text is the token of block 0 inside code-block
  markup is taken for the placeholder of the diagram: the global replacement turns the
  literal content into a second copy of the diagram container.
\<close>

theorem placeholder_collides_with_literal:
  "placeholder 0 = ''<!--MERMAID_PLACEHOLDER_0-->''
   \<and> markdownToHtml demo_libs
        [Other (''<pre><code>'' @ ''<!--MERMAID_PLACEHOLDER_0-->'' @ ''</code></pre>''),
         Fence ''mermaid'' ''graph TD'']
     = Inr \<lparr>html = mermaidDiv ''graph TD'' @ mermaidDiv ''graph TD'', hasMermaid = True\<rparr>"
  by code_simp

section \<open>Matching the wrapper\<close>

lemma strip_prefix_iff: "strip_prefix p s = Some r \<longleftrightarrow> s = p @ r"
  by (induction p s rule: strip_prefix.induct) auto

lemma strip_prefix_same [simp]: "strip_prefix p (p @ r) = Some r"
  by (simp add: strip_prefix_iff)



lemma not_isspace_lt [simp]: "\<not> isspace CHR ''<''"
  by (simp add: isspace_def)

lemma isspace_nl [simp]: "isspace nl"
  by (simp add: isspace_def nl_def)




section \<open>The global replacement\<close>

text \<open>Where no attempt matches, the scan copies the text.\<close>

lemma replace_all_skip:
  assumes "\<And>a. suffix a A \<Longrightarrow> a \<noteq> [] \<Longrightarrow> match_wrapped tok (a @ R) = None"
  shows "replace_all tok repl pre (A @ R) = A @ replace_all tok repl (pre @ A) R"
  using assms
proof (induction A arbitrary: pre)
  case Nil
  show ?case by simp
next
  case (Cons c A)
  have "match_wrapped tok ((c # A) @ R) = None"
    by (rule Cons.prems) simp_all
  moreover have "replace_all tok repl (pre @ [c]) (A @ R) = A @ replace_all tok repl ((pre @ [c]) @ A) R"
    by (rule Cons.IH) (simp add: Cons.prems suffix_ConsI)
  ultimately show ?case by simp
qed



lemma replace_all_unmatched:
  assumes "no_match tok s"
  shows "replace_all tok repl pre s = s"
proof -
  have "replace_all tok repl pre (s @ []) = s @ replace_all tok repl (pre @ s) []"
    using assms by (intro replace_all_skip) (simp add: no_match_def)
  then show ?thesis by simp
qed

lemma reinject_unmatched:
  "\<forall>b\<in>set bs. no_match (placeholder (index b)) h \<Longrightarrow> reinject bs h = h"
  by (induction bs) (simp_all add: replace_all_unmatched)






section \<open>Where a token can occur\<close>



















section \<open>The reinjection loop\<close>








text \<open>
  C4 does not hold of the code. The container is built from the source escaped once, but
  it is handed to \<^verbatim>\<open>String.prototype.replace\<close> as a replacement template, which
  rewrites dollar patterns. For the diagram source
  \<^verbatim>\<open>graph LR; A["$$x^2$$"] --> B\<close> the escaped source keeps both \<^verbatim>\<open>$$\<close>, and the
  payload in the final HTML has a single \<^verbatim>\<open>$\<close> in each place.
\<close>

theorem dollar_pattern_rewrites_payload:
  "escapeHtml (''graph LR; A['' @ [dq] @ ''$$x^2$$'' @ [dq] @ ''] --> B'')
     = ''graph LR; A[&quot;$$x^2$$&quot;] --&gt; B''
   \<and> markdownToHtml demo_libs
        [Fence ''mermaid'' (''graph LR; A['' @ [dq] @ ''$$x^2$$'' @ [dq] @ ''] --> B'')]
     = Inr \<lparr>html = ''<div class='' @ [dq] @ ''mermaid-container'' @ [dq] @ ''><div class='' @ [dq]
                 @ ''mermaid'' @ [dq] @ ''>graph LR; A[&quot;$x^2$&quot;] --&gt; B</div></div>'',
            hasMermaid = True\<rparr>"
  by code_simp

text \<open>
  C5. A block whose pattern matches nowhere leaves the HTML as it is, token included,
  and the loop goes on with the next block; nothing is raised. When that holds of every
  block of a conversion, the result of \<^verbatim>\<open>markdownToHtml\<close> is the HTML of the parse,
  and the conversion goes on to assemble and export that document.
\<close>

theorem unmatched_placeholder_passes_through:
  "(no_match (placeholder (index b)) h' \<longrightarrow>
      replace_all (placeholder (index b)) (mermaidDiv (code b)) [] h' = h'
      \<and> reinject (b # bs) h' = reinject bs h')
   \<and> (marked_parse L doc \<lparr>mermaidIndex = 0, mermaidBlocks = []\<rparr> = Inr (h, st)
        \<and> (\<forall>b\<in>set (mermaidBlocks st). no_match (placeholder (index b)) h)
      \<longrightarrow> markdownToHtml L doc = Inr \<lparr>html = h, hasMermaid = (mermaidBlocks st \<noteq> [])\<rparr>
          \<and> convert L S doc css out
              = generatePdf S (buildHtmlDocument h css (mermaidBlocks st \<noteq> [])) out
                  (mermaidBlocks st \<noteq> []))"
  by (auto simp: replace_all_unmatched reinject_unmatched markdownToHtml_def convert_def)

theorem unmatched_placeholder_passes_through_witness:
  "markdownToHtml bare_libs [Fence ''mermaid'' ''A-->B'']
     = Inr \<lparr>html = ''<pre class=diagram><code><!--MERMAID_PLACEHOLDER_0--></code></pre>'',
            hasMermaid = True\<rparr>
   \<and> fst (convert bare_libs ok_surface [Fence ''mermaid'' ''A-->B''] [] ''out.pdf'')
     = [Launch, NewPage,
        SetContent (buildHtmlDocument
          ''<pre class=diagram><code><!--MERMAID_PLACEHOLDER_0--></code></pre>'' [] True),
        WaitForFunction 30000, SetTimeout 500, Pdf (pdf_options ''out.pdf''), Close]"
proof -
  let ?h = "''<pre class=diagram><code><!--MERMAID_PLACEHOLDER_0--></code></pre>''"
  let ?st = "\<lparr>mermaidIndex = 1, mermaidBlocks = [\<lparr>index = 0, code = ''A-->B''\<rparr>]\<rparr>"
  have p: "marked_parse bare_libs [Fence ''mermaid'' ''A-->B''] \<lparr>mermaidIndex = 0, mermaidBlocks = []\<rparr>
             = Inr (?h, ?st)"
    by code_simp
  have n: "no_match (placeholder 0) ?h"
    by code_simp
  have g: "fst (generatePdf ok_surface (buildHtmlDocument ?h [] True) ''out.pdf'' True)
     = [Launch, NewPage, SetContent (buildHtmlDocument ?h [] True),
        WaitForFunction 30000, SetTimeout 500, Pdf (pdf_options ''out.pdf''), Close]"
    by (simp add: generatePdf_def ok_surface_def)
  show ?thesis
    using unmatched_placeholder_passes_through
      [of "\<lparr>index = 0, code = ''A-->B''\<rparr>" ?h "[]" bare_libs "[Fence ''mermaid'' ''A-->B'']" ?h ?st
          ok_surface "[]" "''out.pdf''"]
      p n g
    by simp
qed

section \<open>The assembled document\<close>




end
